theory Spec2Isabelle
  imports Complex_Main "HOL-Library.Word"
begin

unbundle bit_operations_syntax

section \<open>The HMC58X3 magnetometer driver (HMC58X3.cpp)\<close>

text \<open>
  The driver talks to the chip through an I2C client object and keeps six floats
  (three scale factors, three maxima). Everything it does beyond computing is made
  explicit here: the calls on the I2C client and the sleeps are appended to an event
  list, the \<^verbatim>\<open>ROS_INFO\<close> lines to a second list, and the object's fields are a record
  that every method takes and returns.
\<close>

subsection \<open>Machine types\<close>

type_synonym byte = "8 word"
type_synonym int16 = "16 word"
type_synonym int32 = "32 word"
type_synonym uint32 = "32 word"

text \<open>A reading \<^verbatim>\<open>int16_t xyz[3]\<close> and the accumulators \<^verbatim>\<open>int32_t xyz_total[3]\<close>.\<close>

type_synonym raw_sample = "int16 \<times> int16 \<times> int16"
type_synonym totals = "int32 \<times> int32 \<times> int32"

subsection \<open>The outside world\<close>

text \<open>
  What the driver does to the outside, in order: \<^verbatim>\<open>i2c_client._write(ADDR, reg, &val, 1)\<close>,
  \<^verbatim>\<open>i2c_client._read(ADDR, reg, buf, n)\<close> and \<^verbatim>\<open>delayMSec(ms)\<close>. The device address is
  the same constant in every call and is left out of the events.
\<close>

datatype io_event =
    Reg_write byte byte
  | Reg_read byte nat
  | Sleep_ms nat

text \<open>
  What a \<^verbatim>\<open>_read\<close> leaves behind: whether it reported success, and the contents of the
  caller's buffer after the call (whatever they are when the read failed or was short:
  \<^verbatim>\<open>getRaw\<close> uses them unchecked).
\<close>

record read_result =
  rd_ok :: bool
  rd_buf :: "nat \<Rightarrow> byte"

text \<open>
  The lines sent to the diagnostic sink, one constructor per call site and its
  arguments: \<^verbatim>\<open>ROS_INFO("id %d %d %d\n", ...)\<close> in getID, the per-sample line and the
  totals line (both \<^verbatim>\<open>"%d %d %d \n"\<close>), the limits line, and \<^verbatim>\<open>DEBUG_PRINT(text)\<close>.
\<close>

datatype ros_msg =
    Info_id byte byte byte
  | Info_xyz int16 int16 int16
  | Info_totals int32 int32 int32
  | Info_limits int32 int32
  | Debug_print string

text \<open>
  The header HMC58X3.h, the I2C client and the floating-point unit are not part of
  the source file. They are the fields of one environment record that every function
  takes: the header's macros, the compile-time chip variant, the floating operations
  the source uses on \<^verbatim>\<open>float\<close> (type \<open>'f\<close>) and \<^verbatim>\<open>double\<close> (type \<open>'d\<close>), left
  uninterpreted, and the device behind the bus as a function from everything done to
  the outside so far and the request to the answer of the read.
\<close>

record ('f, 'd) env =
  ISHMC5843 :: bool
  HMC58X3_R_CONFA :: byte
  HMC58X3_R_CONFB :: byte
  HMC58X3_R_MODE :: byte
  HMC58X3_R_XM :: byte
  HMC58X3_R_IDA :: byte
  HMC_POS_BIAS :: int
  HMC_NEG_BIAS :: int
  SELF_TEST_LOW_LIMIT :: 'd
  SELF_TEST_HIGH_LIMIT :: 'd
  HMC58X3_X_SELF_TEST_GAUSS :: 'd
  HMC58X3_Y_SELF_TEST_GAUSS :: 'd
  HMC58X3_Z_SELF_TEST_GAUSS :: 'd
  s_of_int :: "int \<Rightarrow> 'f"
  s_div :: "'f \<Rightarrow> 'f \<Rightarrow> 'f"
  s_gt :: "'f \<Rightarrow> 'f \<Rightarrow> bool"
  s_of_d :: "'d \<Rightarrow> 'f"
  d_of_s :: "'f \<Rightarrow> 'd"
  d_of_int :: "int \<Rightarrow> 'd"
  d_half :: 'd
  d_add :: "'d \<Rightarrow> 'd \<Rightarrow> 'd"
  d_mul :: "'d \<Rightarrow> 'd \<Rightarrow> 'd"
  d_div :: "'d \<Rightarrow> 'd \<Rightarrow> 'd"
  d_to_int16 :: "'d \<Rightarrow> int16"
  d_to_int32 :: "'d \<Rightarrow> int32"
  i2c_device :: "io_event list \<Rightarrow> byte \<Rightarrow> nat \<Rightarrow> read_result"

subsection \<open>The driver object\<close>

record 'f hmc58x3 =
  x_scale :: 'f
  y_scale :: 'f
  z_scale :: 'f
  x_max :: 'f
  y_max :: 'f
  z_max :: 'f
  io :: "io_event list"
  rosout :: "ros_msg list"

text \<open>The constructor: unit scale factors; the maxima are left uninitialised by the source.\<close>

definition HMC58X3 :: "('f, 'd) env \<Rightarrow> 'f \<Rightarrow> 'f \<Rightarrow> 'f \<Rightarrow> 'f hmc58x3" where
  "HMC58X3 e ux uy uz =
     \<lparr>x_scale = s_of_int e 1, y_scale = s_of_int e 1, z_scale = s_of_int e 1,
      x_max = ux, y_max = uy, z_max = uz, io = [], rosout = []\<rparr>"

subsection \<open>Primitives\<close>

definition delayMSec :: "nat \<Rightarrow> 'f hmc58x3 \<Rightarrow> 'f hmc58x3" where
  "delayMSec num_ms s = s\<lparr>io := io s @ [Sleep_ms num_ms]\<rparr>"

definition ROS_INFO :: "ros_msg \<Rightarrow> 'f hmc58x3 \<Rightarrow> 'f hmc58x3" where
  "ROS_INFO m s = s\<lparr>rosout := rosout s @ [m]\<rparr>"

definition DEBUG_PRINT :: "string \<Rightarrow> 'f hmc58x3 \<Rightarrow> 'f hmc58x3" where
  "DEBUG_PRINT x s = ROS_INFO (Debug_print x) s"

definition writeReg :: "byte \<Rightarrow> byte \<Rightarrow> 'f hmc58x3 \<Rightarrow> 'f hmc58x3" where
  "writeReg reg val s = s\<lparr>io := io s @ [Reg_write reg val]\<rparr>"

definition i2c_read :: "('f, 'd) env \<Rightarrow> byte \<Rightarrow> nat \<Rightarrow> 'f hmc58x3 \<Rightarrow> read_result \<times> 'f hmc58x3" where
  "i2c_read e reg n s = (i2c_device e (io s) reg n, s\<lparr>io := io s @ [Reg_read reg n]\<rparr>)"

subsection \<open>Configuration\<close>

definition setMode :: "('f, 'd) env \<Rightarrow> byte \<Rightarrow> 'f hmc58x3 \<Rightarrow> 'f hmc58x3" where
  "setMode e mode s =
     (if mode > 2 then s
      else delayMSec 100 (writeReg (HMC58X3_R_MODE e) mode s))"

definition setDOR :: "('f, 'd) env \<Rightarrow> byte \<Rightarrow> 'f hmc58x3 \<Rightarrow> 'f hmc58x3" where
  "setDOR e DOR s =
     (if DOR > 6 then s
      else writeReg (HMC58X3_R_CONFA e) (push_bit 2 DOR) s)"

definition setGain :: "('f, 'd) env \<Rightarrow> byte \<Rightarrow> 'f hmc58x3 \<Rightarrow> 'f hmc58x3" where
  "setGain e gain s =
     (if gain > 7 then s
      else writeReg (HMC58X3_R_CONFB e) (push_bit 5 gain) s)"

definition init :: "('f, 'd) env \<Rightarrow> bool \<Rightarrow> 'f hmc58x3 \<Rightarrow> 'f hmc58x3" where
  "init e setmode s =
     (let s1 = delayMSec 5 s;
          s2 = (if setmode then setMode e 0 s1 else s1);
          s3 = writeReg (HMC58X3_R_CONFA e) 0x70 s2;
          s4 = writeReg (HMC58X3_R_CONFB e) 0xA0 s3
      in writeReg (HMC58X3_R_MODE e) 0x00 s4)"

subsection \<open>Reading\<close>

text \<open>
  \<^verbatim>\<open>(rx[0] << 8) | rx[1]\<close>: the two bytes are promoted to \<^verbatim>\<open>int\<close>, combined, and the
  result (0 to 65535) is converted to \<^verbatim>\<open>int16_t\<close>, which keeps the low 16 bits.
\<close>

definition be16 :: "byte \<Rightarrow> byte \<Rightarrow> int16" where
  "be16 hi lo = word_of_int (push_bit 8 (uint hi) OR uint lo)"

definition getRaw :: "('f, 'd) env \<Rightarrow> 'f hmc58x3 \<Rightarrow> raw_sample \<times> 'f hmc58x3" where
  "getRaw e s =
     (let (r, s1) = i2c_read e (HMC58X3_R_XM e) 6 s;
          rx = rd_buf r;
          x = be16 (rx 0) (rx 1)
      in if ISHMC5843 e
         then ((x, be16 (rx 2) (rx 3), be16 (rx 4) (rx 5)), s1)
         else ((x, be16 (rx 4) (rx 5), be16 (rx 2) (rx 3)), s1))"

text \<open>The \<^verbatim>\<open>float\<close> overload of getValues and the \<^verbatim>\<open>int16_t\<close> one that calls it.\<close>

definition getValues_float :: "('f, 'd) env \<Rightarrow> 'f hmc58x3 \<Rightarrow> ('f \<times> 'f \<times> 'f) \<times> 'f hmc58x3" where
  "getValues_float e s =
     (let ((xr, yr, zr), s1) = getRaw e s
      in ((s_div e (s_of_int e (sint xr)) (x_scale s1),
           s_div e (s_of_int e (sint yr)) (y_scale s1),
           s_div e (s_of_int e (sint zr)) (z_scale s1)), s1))"

definition getValues_int16 :: "('f, 'd) env \<Rightarrow> 'f hmc58x3 \<Rightarrow> raw_sample \<times> 'f hmc58x3" where
  "getValues_int16 e s =
     (let ((fx, fy, fz), s1) = getValues_float e s
      in ((d_to_int16 e (d_add e (d_of_s e fx) (d_half e)),
           d_to_int16 e (d_add e (d_of_s e fy) (d_half e)),
           d_to_int16 e (d_add e (d_of_s e fz) (d_half e))), s1))"

text \<open>getID: the three bytes, or zeros when the read reports failure; then the log line.\<close>

definition getID :: "('f, 'd) env \<Rightarrow> 'f hmc58x3 \<Rightarrow> (byte \<times> byte \<times> byte) \<times> 'f hmc58x3" where
  "getID e s =
     (let (r, s1) = i2c_read e (HMC58X3_R_IDA e) 3 s;
          (a, b, c) = (if \<not> rd_ok r then (0, 0, 0)
                       else (rd_buf r 0, rd_buf r 1, rd_buf r 2))
      in ((a, b, c), ROS_INFO (Info_id a b c) s1))"

subsection \<open>The gain table\<close>

definition counts_per_milligauss :: "('f, 'd) env \<Rightarrow> nat \<Rightarrow> int" where
  "counts_per_milligauss e g =
     (if ISHMC5843 e
      then [1620, 1300, 970, 780, 530, 460, 390, 280] ! g
      else [1370, 1090, 820, 660, 440, 390, 330, 230] ! g)"

subsection \<open>The simple calibration, \<^verbatim>\<open>calibrate(gain)\<close>\<close>

text \<open>The loop \<^verbatim>\<open>for (int i=0; i<(int)t; i++)\<close> with \<^verbatim>\<open>t=10\<close>, by the iterations left.\<close>

fun max_loop ::
  "('f, 'd) env \<Rightarrow> nat \<Rightarrow> 'f \<times> 'f \<times> 'f \<Rightarrow> 'f hmc58x3 \<Rightarrow> ('f \<times> 'f \<times> 'f) \<times> 'f hmc58x3" where
  "max_loop e 0 m s = (m, s)"
| "max_loop e (Suc k) (mx, my, mz) s =
     (let s1 = setMode e 1 s;
          ((x, y, z), s2) = getValues_float e s1
      in max_loop e k
           (if s_gt e x mx then x else mx,
            if s_gt e y my then y else my,
            if s_gt e z mz then z else mz) s2)"

definition calibrate_simple :: "('f, 'd) env \<Rightarrow> byte \<Rightarrow> 'f hmc58x3 \<Rightarrow> 'f hmc58x3" where
  "calibrate_simple e gain s =
     (let s0 = s\<lparr>x_scale := s_of_int e 1, y_scale := s_of_int e 1, z_scale := s_of_int e 1\<rparr>;
          s1 = writeReg (HMC58X3_R_CONFA e) (word_of_int (0x010 + HMC_POS_BIAS e)) s0;
          s2 = setGain e gain s1;
          ((mx, my, mz), s3) = max_loop e 10 (s_of_int e 0, s_of_int e 0, s_of_int e 0) s2;
          max0 = s_of_int e 0;
          max1 = (if s_gt e mx max0 then mx else max0);
          max2 = (if s_gt e my max1 then my else max1);
          max3 = (if s_gt e mz max2 then mz else max2);
          s4 = s3\<lparr>x_max := mx, y_max := my, z_max := mz,
                  x_scale := s_div e max3 mx, y_scale := s_div e max3 my,
                  z_scale := s_div e max3 mz\<rparr>
      in writeReg (HMC58X3_R_CONFA e) 0x010 s4)"

subsection \<open>The self-test calibration, \<^verbatim>\<open>calibrate(gain, n_samples)\<close>\<close>

text \<open>\<^verbatim>\<open>-(1<<12) >= min(xyz[0],min(xyz[1],xyz[2]))\<close>, on the signed values.\<close>

definition saturated :: "raw_sample \<Rightarrow> bool" where
  "saturated xyz = (case xyz of (x, y, z) \<Rightarrow> - (2 ^ 12) \<ge> min (sint x) (min (sint y) (sint z)))"

text \<open>
  \<^verbatim>\<open>xyz_total[i] += xyz[i]\<close> and \<^verbatim>\<open>xyz_total[i] -= xyz[i]\<close>: the sample is sign-extended
  to 32 bits; the sum wraps around at 32 bits.
\<close>

definition add_sample :: "int32 \<Rightarrow> int16 \<Rightarrow> int32" where
  "add_sample t v = t + scast v"

definition sub_sample :: "int32 \<Rightarrow> int16 \<Rightarrow> int32" where
  "sub_sample t v = t - scast v"

definition accumulate :: "(int32 \<Rightarrow> int16 \<Rightarrow> int32) \<Rightarrow> raw_sample \<Rightarrow> totals \<Rightarrow> totals" where
  "accumulate upd xyz tot =
     (case (xyz, tot) of ((x, y, z), (tx, ty, tz)) \<Rightarrow> (upd tx x, upd ty y, upd tz z))"

text \<open>
  The two sampling loops \<^verbatim>\<open>for (unsigned int i=0; i<n_samples; i++)\<close> have the same
  body but for \<^verbatim>\<open>+=\<close> and \<^verbatim>\<open>-=\<close>, which is the parameter \<open>upd\<close>. The second
  argument counts the iterations left; \<^verbatim>\<open>break\<close> is the branch that does not recurse.
\<close>

fun bias_loop ::
  "('f, 'd) env \<Rightarrow> (int32 \<Rightarrow> int16 \<Rightarrow> int32) \<Rightarrow> nat \<Rightarrow> bool \<Rightarrow> totals \<Rightarrow> 'f hmc58x3
     \<Rightarrow> bool \<times> totals \<times> 'f hmc58x3" where
  "bias_loop e upd 0 bret tot s = (bret, tot, s)"
| "bias_loop e upd (Suc k) bret tot s =
     (let s1 = setMode e 1 s;
          (xyz, s2) = getRaw e s1;
          s3 = (case xyz of (x, y, z) \<Rightarrow> ROS_INFO (Info_xyz x y z) s2);
          tot1 = accumulate upd xyz tot
      in if saturated xyz
         then (False, tot1, DEBUG_PRINT ''HMC58x3 Self test saturated. Increase range.'' s3)
         else bias_loop e upd k bret tot1 s3)"

text \<open>
  \<^verbatim>\<open>low_limit = SELF_TEST_LOW_LIMIT*counts_per_milligauss[gain]*2*n_samples\<close>, and the
  same with the high factor: a floating product, converted to \<^verbatim>\<open>int32_t\<close>.
\<close>

definition self_test_limit :: "('f, 'd) env \<Rightarrow> 'd \<Rightarrow> byte \<Rightarrow> uint32 \<Rightarrow> int32" where
  "self_test_limit e factor gain n_samples =
     d_to_int32 e
       (d_mul e
          (d_mul e
             (d_mul e factor (d_of_int e (counts_per_milligauss e (unat gain))))
             (d_of_int e 2))
          (d_of_int e (uint n_samples)))"

text \<open>
  \<^verbatim>\<open>(counts_per_milligauss[gain]*(GAUSS*2))/(xyz_total[i]/n_samples)\<close>, assigned to a
  float. The inner quotient divides an \<^verbatim>\<open>int32_t\<close> by an \<^verbatim>\<open>unsigned int\<close>: an unsigned
  integer division.
\<close>

definition self_test_scale :: "('f, 'd) env \<Rightarrow> 'd \<Rightarrow> byte \<Rightarrow> uint32 \<Rightarrow> int32 \<Rightarrow> 'f" where
  "self_test_scale e gauss gain n_samples axis_total =
     s_of_d e
       (d_div e
          (d_mul e (d_of_int e (counts_per_milligauss e (unat gain)))
                   (d_mul e gauss (d_of_int e 2)))
          (d_of_int e (uint (axis_total div n_samples))))"

definition within_limits :: "int32 \<Rightarrow> int32 \<Rightarrow> totals \<Rightarrow> bool" where
  "within_limits low_limit high_limit tot =
     (case tot of (tx, ty, tz) \<Rightarrow>
        sint low_limit \<le> sint tx \<and> sint high_limit \<ge> sint tx \<and>
        sint low_limit \<le> sint ty \<and> sint high_limit \<ge> sint ty \<and>
        sint low_limit \<le> sint tz \<and> sint high_limit \<ge> sint tz)"

definition failed_id_text :: "('f, 'd) env \<Rightarrow> string" where
  "failed_id_text e =
     (if ISHMC5843 e then ''HMC5843 failed id check.'' else ''HMC5883L failed id check.'')"

definition calibrate ::
  "('f, 'd) env \<Rightarrow> byte \<Rightarrow> uint32 \<Rightarrow> 'f hmc58x3 \<Rightarrow> bool \<times> 'f hmc58x3" where
  "calibrate e gain n_samples s =
     (if 8 > gain \<and> 0 < n_samples then
        (let (ident, s1) = getID e s in
         if ident = (0x48, 0x34, 0x33) then
           (let s2 = writeReg (HMC58X3_R_CONFA e) (word_of_int (0x010 + HMC_POS_BIAS e)) s1;
                s3 = setGain e gain s2;
                s4 = setMode e 1 s3;
                (ignored, s5) = getRaw e s4;
                (bret1, tot1, s6) = bias_loop e add_sample (unat n_samples) True (0, 0, 0) s5;
                s7 = (case tot1 of (tx, ty, tz) \<Rightarrow> ROS_INFO (Info_totals tx ty tz) s6);
                s8 = writeReg (HMC58X3_R_CONFA e) (word_of_int (0x010 + HMC_NEG_BIAS e)) s7;
                (bret2, tot2, s9) = bias_loop e sub_sample (unat n_samples) bret1 tot1 s8;
                s10 = (case tot2 of (tx, ty, tz) \<Rightarrow> ROS_INFO (Info_totals tx ty tz) s9);
                low_limit = self_test_limit e (SELF_TEST_LOW_LIMIT e) gain n_samples;
                high_limit = self_test_limit e (SELF_TEST_HIGH_LIMIT e) gain n_samples;
                s11 = ROS_INFO (Info_limits low_limit high_limit) s10;
                (bret3, s12) =
                  (if bret2 \<and> within_limits low_limit high_limit tot2
                   then (bret2,
                         s11\<lparr>x_scale := self_test_scale e (HMC58X3_X_SELF_TEST_GAUSS e) gain n_samples (fst tot2),
                             y_scale := self_test_scale e (HMC58X3_Y_SELF_TEST_GAUSS e) gain n_samples (fst (snd tot2)),
                             z_scale := self_test_scale e (HMC58X3_Z_SELF_TEST_GAUSS e) gain n_samples (snd (snd tot2))\<rparr>)
                   else (False, DEBUG_PRINT ''HMC58x3 Self test out of range.'' s11))
            in (bret3, writeReg (HMC58X3_R_CONFA e) 0x010 s12))
         else (False, DEBUG_PRINT (failed_id_text e) s1))
      else (False, DEBUG_PRINT ''HMC58x3 Bad parameters.'' s))"

subsection \<open>What the device hands to a sampling loop\<close>

text \<open>
  The functions of this subsection are not in the source: they describe, from the
  device alone, what the source's loops meet, so that the properties below can speak
  of ``the samples of a phase''.
\<close>

text \<open>The bus traffic of one \<^verbatim>\<open>setMode(1); getRaw(...)\<close>.\<close>

definition sample_ops :: "('f, 'd) env \<Rightarrow> io_event list" where
  "sample_ops e = [Reg_write (HMC58X3_R_MODE e) 1, Sleep_ms 100, Reg_read (HMC58X3_R_XM e) 6]"

text \<open>The reading the device answers to a data read issued after the events \<open>tr\<close>.\<close>

definition device_sample :: "('f, 'd) env \<Rightarrow> io_event list \<Rightarrow> raw_sample" where
  "device_sample e tr =
     (let rx = rd_buf (i2c_device e tr (HMC58X3_R_XM e) 6)
      in if ISHMC5843 e
         then (be16 (rx 0) (rx 1), be16 (rx 2) (rx 3), be16 (rx 4) (rx 5))
         else (be16 (rx 0) (rx 1), be16 (rx 4) (rx 5), be16 (rx 2) (rx 3)))"

text \<open>
  The samples a phase of at most \<open>k\<close> single-shot readings consists of, when it starts
  after the events \<open>tr\<close>: the device's readings in order, up to and including the
  first saturated one.
\<close>

fun phase_samples :: "('f, 'd) env \<Rightarrow> nat \<Rightarrow> io_event list \<Rightarrow> raw_sample list" where
  "phase_samples e 0 tr = []"
| "phase_samples e (Suc k) tr =
     (let xyz = device_sample e (tr @ [Reg_write (HMC58X3_R_MODE e) 1, Sleep_ms 100])
      in if saturated xyz then [xyz]
         else xyz # phase_samples e k (tr @ sample_ops e))"

text \<open>The lines a sampling loop logs for the samples \<open>xs\<close>.\<close>

definition sample_lines :: "raw_sample \<Rightarrow> ros_msg list" where
  "sample_lines xyz =
     (case xyz of (x, y, z) \<Rightarrow>
        Info_xyz x y z #
        (if saturated xyz then [Debug_print ''HMC58x3 Self test saturated. Increase range.'']
         else []))"

definition phase_lines :: "raw_sample list \<Rightarrow> ros_msg list" where
  "phase_lines xs = concat (map sample_lines xs)"

text \<open>The bus traffic of a sampling loop that took \<open>m\<close> samples.\<close>

definition phase_ops :: "('f, 'd) env \<Rightarrow> nat \<Rightarrow> io_event list" where
  "phase_ops e m = concat (replicate m (sample_ops e))"

text \<open>
  The self test of \<^verbatim>\<open>calibrate(gain, n_samples)\<close> started in state \<open>s\<close>, once the
  parameters and the identity are accepted: the events up to the first loop, the
  samples of the positive phase, the events up to the second loop, the samples of the
  negative phase, and the totals: the positive samples added and the negative ones
  subtracted, axis by axis, in 32 bits.
\<close>

definition pos_bias_value :: "('f, 'd) env \<Rightarrow> byte" where
  "pos_bias_value e = word_of_int (0x010 + HMC_POS_BIAS e)"

definition neg_bias_value :: "('f, 'd) env \<Rightarrow> byte" where
  "neg_bias_value e = word_of_int (0x010 + HMC_NEG_BIAS e)"

definition pos_start :: "('f, 'd) env \<Rightarrow> byte \<Rightarrow> 'f hmc58x3 \<Rightarrow> io_event list" where
  "pos_start e gain s =
     io s @ [Reg_read (HMC58X3_R_IDA e) 3,
             Reg_write (HMC58X3_R_CONFA e) (pos_bias_value e),
             Reg_write (HMC58X3_R_CONFB e) (push_bit 5 gain)] @ sample_ops e"

definition pos_samples :: "('f, 'd) env \<Rightarrow> byte \<Rightarrow> uint32 \<Rightarrow> 'f hmc58x3 \<Rightarrow> raw_sample list" where
  "pos_samples e gain n_samples s = phase_samples e (unat n_samples) (pos_start e gain s)"

definition neg_start :: "('f, 'd) env \<Rightarrow> byte \<Rightarrow> uint32 \<Rightarrow> 'f hmc58x3 \<Rightarrow> io_event list" where
  "neg_start e gain n_samples s =
     pos_start e gain s @ phase_ops e (length (pos_samples e gain n_samples s)) @
     [Reg_write (HMC58X3_R_CONFA e) (neg_bias_value e)]"

definition neg_samples :: "('f, 'd) env \<Rightarrow> byte \<Rightarrow> uint32 \<Rightarrow> 'f hmc58x3 \<Rightarrow> raw_sample list" where
  "neg_samples e gain n_samples s = phase_samples e (unat n_samples) (neg_start e gain n_samples s)"

definition pos_totals :: "('f, 'd) env \<Rightarrow> byte \<Rightarrow> uint32 \<Rightarrow> 'f hmc58x3 \<Rightarrow> totals" where
  "pos_totals e gain n_samples s =
     fold (accumulate add_sample) (pos_samples e gain n_samples s) (0, 0, 0)"

definition axis_totals :: "('f, 'd) env \<Rightarrow> byte \<Rightarrow> uint32 \<Rightarrow> 'f hmc58x3 \<Rightarrow> totals" where
  "axis_totals e gain n_samples s =
     fold (accumulate sub_sample) (neg_samples e gain n_samples s) (pos_totals e gain n_samples s)"

definition low_limit :: "('f, 'd) env \<Rightarrow> byte \<Rightarrow> uint32 \<Rightarrow> int32" where
  "low_limit e gain n_samples = self_test_limit e (SELF_TEST_LOW_LIMIT e) gain n_samples"

definition high_limit :: "('f, 'd) env \<Rightarrow> byte \<Rightarrow> uint32 \<Rightarrow> int32" where
  "high_limit e gain n_samples = self_test_limit e (SELF_TEST_HIGH_LIMIT e) gain n_samples"

definition id_accepted :: "('f, 'd) env \<Rightarrow> 'f hmc58x3 \<Rightarrow> bool" where
  "id_accepted e s = (fst (getID e s) = (0x48, 0x34, 0x33))"

definition scales :: "'f hmc58x3 \<Rightarrow> 'f \<times> 'f \<times> 'f" where
  "scales s = (x_scale s, y_scale s, z_scale s)"

definition totals_line :: "totals \<Rightarrow> ros_msg" where
  "totals_line tot = (case tot of (tx, ty, tz) \<Rightarrow> Info_totals tx ty tz)"

text \<open>
  The success condition of the self test: no saturated sample in either phase, and
  the three totals within the limits.
\<close>

definition self_test_passed :: "('f, 'd) env \<Rightarrow> byte \<Rightarrow> uint32 \<Rightarrow> 'f hmc58x3 \<Rightarrow> bool" where
  "self_test_passed e gain n_samples s =
     (\<not> list_ex saturated (pos_samples e gain n_samples s) \<and>
      \<not> list_ex saturated (neg_samples e gain n_samples s) \<and>
      within_limits (low_limit e gain n_samples) (high_limit e gain n_samples)
        (axis_totals e gain n_samples s))"

subsection \<open>A test bench\<close>

text \<open>
  A concrete environment on which the functions above evaluate: the register map and
  the self-test constants of the HMC5883L, arithmetic on the rationals without
  rounding (conversion to an integer type truncates towards zero, as in C++), and a
  scripted device. The scripted device answers a read of the identity registers with
  the given bytes and success flag, and the \<open>i\<close>-th read of the data registers with
  the \<open>i\<close>-th six-byte buffer of the script (zeros once the script is used up).
\<close>

definition trunc_rat :: "rat \<Rightarrow> int" where
  "trunc_rat q = (if 0 \<le> q then \<lfloor>q\<rfloor> else \<lceil>q\<rceil>)"

definition buffer_of :: "byte list \<Rightarrow> nat \<Rightarrow> byte" where
  "buffer_of bs i = (if i < length bs then bs ! i else 0)"

definition data_reads :: "io_event list \<Rightarrow> nat" where
  "data_reads tr = length (filter (\<lambda>ev. ev = Reg_read 3 6) tr)"

definition scripted_device ::
  "bool \<Rightarrow> byte list \<Rightarrow> byte list list \<Rightarrow> io_event list \<Rightarrow> byte \<Rightarrow> nat \<Rightarrow> read_result" where
  "scripted_device id_ok ident script tr reg cnt =
     (if reg = 10 then \<lparr>rd_ok = id_ok, rd_buf = buffer_of ident\<rparr>
      else \<lparr>rd_ok = True,
            rd_buf = buffer_of (if data_reads tr < length script
                                then script ! data_reads tr else [])\<rparr>)"

definition bench :: "(io_event list \<Rightarrow> byte \<Rightarrow> nat \<Rightarrow> read_result) \<Rightarrow> (rat, rat) env" where
  "bench dev =
     \<lparr>ISHMC5843 = False,
      HMC58X3_R_CONFA = 0, HMC58X3_R_CONFB = 1, HMC58X3_R_MODE = 2,
      HMC58X3_R_XM = 3, HMC58X3_R_IDA = 10,
      HMC_POS_BIAS = 1, HMC_NEG_BIAS = 2,
      SELF_TEST_LOW_LIMIT = 243 / 390, SELF_TEST_HIGH_LIMIT = 575 / 390,
      HMC58X3_X_SELF_TEST_GAUSS = 116 / 100,
      HMC58X3_Y_SELF_TEST_GAUSS = 116 / 100,
      HMC58X3_Z_SELF_TEST_GAUSS = 108 / 100,
      s_of_int = of_int, s_div = (\<lambda>a b. a / b), s_gt = (\<lambda>a b. a > b),
      s_of_d = (\<lambda>q. q), d_of_s = (\<lambda>q. q), d_of_int = of_int, d_half = 1 / 2,
      d_add = (\<lambda>a b. a + b), d_mul = (\<lambda>a b. a * b), d_div = (\<lambda>a b. a / b),
      d_to_int16 = (\<lambda>q. word_of_int (trunc_rat q)),
      d_to_int32 = (\<lambda>q. word_of_int (trunc_rat q)),
      i2c_device = dev\<rparr>"

text \<open>The driver object as constructed, with zero for the uninitialised maxima.\<close>

definition fresh :: "rat hmc58x3" where
  "fresh = \<lparr>x_scale = 1, y_scale = 1, z_scale = 1, x_max = 0, y_max = 0, z_max = 0,
            io = [], rosout = []\<rparr>"

text \<open>
  Scripts. The readings are big-endian, in the HMC5883L order X, Z, Y:
  1000 is \<open>03 E8\<close>, -1000 is \<open>FC 18\<close>, -4096 is \<open>F0 00\<close>, -3 is \<open>FF FD\<close>.
\<close>

definition buf_1000 :: "byte list" where
  "buf_1000 = [0x03, 0xE8, 0x03, 0xE8, 0x03, 0xE8]"

definition buf_minus_1000 :: "byte list" where
  "buf_minus_1000 = [0xFC, 0x18, 0xFC, 0x18, 0xFC, 0x18]"

definition buf_saturated :: "byte list" where
  "buf_saturated = [0x03, 0xE8, 0xF0, 0x00, 0x03, 0xE8]"

definition buf_minus_3 :: "byte list" where
  "buf_minus_3 = [0xFF, 0xFD, 0x00, 0x07, 0x00, 0x02]"

text \<open>A healthy self test with two samples per phase: the discarded reading, then the samples.\<close>

definition good_device :: "io_event list \<Rightarrow> byte \<Rightarrow> nat \<Rightarrow> read_result" where
  "good_device =
     scripted_device True [0x48, 0x34, 0x33]
       [buf_1000, buf_1000, buf_1000, buf_minus_1000, buf_minus_1000]"

text \<open>
  A self test of up to three samples per phase whose second positive sample and first
  negative sample are saturated on one axis.
\<close>

definition saturating_device :: "io_event list \<Rightarrow> byte \<Rightarrow> nat \<Rightarrow> read_result" where
  "saturating_device =
     scripted_device True [0x48, 0x34, 0x33]
       [buf_1000, buf_1000, buf_saturated, buf_saturated, buf_minus_1000, buf_minus_1000]"

text \<open>A device that identifies itself as something else.\<close>

definition foreign_device :: "io_event list \<Rightarrow> byte \<Rightarrow> nat \<Rightarrow> read_result" where
  "foreign_device = scripted_device True [0x48, 0x34, 0x34] [buf_1000]"

text \<open>A device whose X reading is -3.\<close>

definition negative_device :: "io_event list \<Rightarrow> byte \<Rightarrow> nat \<Rightarrow> read_result" where
  "negative_device = scripted_device True [0x48, 0x34, 0x33] [buf_minus_3]"

text \<open>
  A self test of up to three samples per phase: the second positive sample is
  saturated on Z (1000, 1000, -4096), the first negative sample as well
  (-3000, -3000, -8000), and the totals (5000, 5000, 4904) are within the limits.
\<close>

definition buf_negative_saturated :: "byte list" where
  "buf_negative_saturated = [0xF4, 0x48, 0xE0, 0xC0, 0xF4, 0x48]"

definition masked_device :: "io_event list \<Rightarrow> byte \<Rightarrow> nat \<Rightarrow> read_result" where
  "masked_device =
     scripted_device True [0x48, 0x34, 0x33]
       [buf_1000, buf_1000, buf_saturated, buf_negative_saturated, buf_minus_1000]"

subsection \<open>Reading a 16-bit pattern\<close>

text \<open>The value of a 16-bit pattern, given as a number from 0 to 65535, in two's complement.\<close>

definition signed16 :: "int \<Rightarrow> int" where
  "signed16 v = (if v < 2 ^ 15 then v else v - 2 ^ 16)"

subsection \<open>Sums of samples\<close>

definition x_of :: "raw_sample \<Rightarrow> int16" where
  "x_of xyz = fst xyz"

definition y_of :: "raw_sample \<Rightarrow> int16" where
  "y_of xyz = fst (snd xyz)"

definition z_of :: "raw_sample \<Rightarrow> int16" where
  "z_of xyz = snd (snd xyz)"

text \<open>The sum of one axis over a list of samples, in 32 bits.\<close>

definition axis_sum :: "(raw_sample \<Rightarrow> int16) \<Rightarrow> raw_sample list \<Rightarrow> int32" where
  "axis_sum ax xs = sum_list (map (\<lambda>xyz. scast (ax xyz)) xs)"

subsection \<open>What the simple calibration maximises over\<close>

text \<open>
  The readings of \<open>k\<close> successive single-shot measurements started after the events
  \<open>tr\<close>, each divided by a scale factor of one, and the running maximum the source
  keeps per axis.
\<close>

fun free_samples :: "('f, 'd) env \<Rightarrow> nat \<Rightarrow> io_event list \<Rightarrow> raw_sample list" where
  "free_samples e 0 tr = []"
| "free_samples e (Suc k) tr =
     device_sample e (tr @ [Reg_write (HMC58X3_R_MODE e) 1, Sleep_ms 100]) #
     free_samples e k (tr @ sample_ops e)"

definition unit_reading :: "('f, 'd) env \<Rightarrow> raw_sample \<Rightarrow> 'f \<times> 'f \<times> 'f" where
  "unit_reading e xyz =
     (case xyz of (x, y, z) \<Rightarrow>
        (s_div e (s_of_int e (sint x)) (s_of_int e 1),
         s_div e (s_of_int e (sint y)) (s_of_int e 1),
         s_div e (s_of_int e (sint z)) (s_of_int e 1)))"

fun running_max :: "('f, 'd) env \<Rightarrow> 'f \<times> 'f \<times> 'f \<Rightarrow> ('f \<times> 'f \<times> 'f) list \<Rightarrow> 'f \<times> 'f \<times> 'f" where
  "running_max e m [] = m"
| "running_max e (mx, my, mz) ((x, y, z) # rs) =
     running_max e
       (if s_gt e x mx then x else mx,
        if s_gt e y my then y else my,
        if s_gt e z mz then z else mz) rs"

text \<open>The events of \<^verbatim>\<open>calibrate(gain)\<close> before its loop.\<close>

definition simple_start :: "('f, 'd) env \<Rightarrow> byte \<Rightarrow> 'f hmc58x3 \<Rightarrow> io_event list" where
  "simple_start e gain s =
     io s @ [Reg_write (HMC58X3_R_CONFA e) (pos_bias_value e)] @
     (if gain > 7 then [] else [Reg_write (HMC58X3_R_CONFB e) (push_bit 5 gain)])"

section \<open>Supporting lemmas\<close>

subsection \<open>One sample, and a sampling loop\<close>

lemma getRaw_eq: "getRaw e s = (device_sample e (io s), s\<lparr>io := io s @ [Reg_read (HMC58X3_R_XM e) 6]\<rparr>)"
  by (simp add: getRaw_def device_sample_def i2c_read_def Let_def)

lemma setMode_1: "setMode e 1 s = s\<lparr>io := io s @ [Reg_write (HMC58X3_R_MODE e) 1, Sleep_ms 100]\<rparr>"
  by (simp add: setMode_def delayMSec_def writeReg_def)

lemma sample_step:
  "getRaw e (setMode e 1 s) =
     (device_sample e (io s @ [Reg_write (HMC58X3_R_MODE e) 1, Sleep_ms 100]),
      s\<lparr>io := io s @ sample_ops e\<rparr>)"
  by (simp add: getRaw_eq setMode_1 sample_ops_def)

lemma bias_loop_run:
  "bias_loop e upd k bret tot s =
     (bret \<and> \<not> list_ex saturated (phase_samples e k (io s)),
      fold (accumulate upd) (phase_samples e k (io s)) tot,
      s\<lparr>io := io s @ phase_ops e (length (phase_samples e k (io s))),
        rosout := rosout s @ phase_lines (phase_samples e k (io s))\<rparr>)"
proof (induction k arbitrary: bret tot s)
  case 0
  show ?case by (simp add: phase_ops_def phase_lines_def)
next
  case (Suc k)
  show ?case
    by (cases "saturated (device_sample e (io s @ [Reg_write (HMC58X3_R_MODE e) 1, Sleep_ms 100]))")
       (simp_all add: sample_step Let_def Suc ROS_INFO_def DEBUG_PRINT_def phase_ops_def phase_lines_def
          sample_lines_def split: prod.splits)
qed

subsection \<open>Samples of a phase\<close>

lemma length_phase_samples: "length (phase_samples e k tr) \<le> k"
  by (induction k arbitrary: tr) (simp_all add: Let_def)

lemma phase_samples_nonempty: "0 < k \<Longrightarrow> phase_samples e k tr \<noteq> []"
  by (cases k) (simp_all add: Let_def)

lemma phase_samples_complete:
  "\<not> list_ex saturated (phase_samples e k tr) \<Longrightarrow> length (phase_samples e k tr) = k"
  by (induction k arbitrary: tr) (simp_all add: Let_def split: if_splits)

lemma phase_samples_last:
  "list_ex saturated (phase_samples e k tr) \<Longrightarrow> saturated (last (phase_samples e k tr))"
proof (induction k arbitrary: tr)
  case 0
  then show ?case by simp
next
  case (Suc k)
  show ?case
  proof (cases "saturated (device_sample e (tr @ [Reg_write (HMC58X3_R_MODE e) 1, Sleep_ms 100]))")
    case True
    then show ?thesis by (simp add: Let_def)
  next
    case False
    with Suc.prems have ex: "list_ex saturated (phase_samples e k (tr @ sample_ops e))"
      by (simp add: Let_def)
    then have "phase_samples e k (tr @ sample_ops e) \<noteq> []" by auto
    with False Suc.IH [OF ex] show ?thesis by (simp add: Let_def)
  qed
qed

lemma phase_samples_butlast:
  "\<not> list_ex saturated (butlast (phase_samples e k tr))"
  by (induction k arbitrary: tr) (simp_all add: Let_def)

lemma phase_shape:
  "(if list_ex saturated (phase_samples e k tr)
    then saturated (last (phase_samples e k tr)) \<and>
         \<not> list_ex saturated (butlast (phase_samples e k tr)) \<and>
         length (phase_samples e k tr) \<le> k
    else length (phase_samples e k tr) = k)"
  by (simp add: phase_samples_last phase_samples_butlast length_phase_samples phase_samples_complete)

subsection \<open>Totals as sums\<close>

lemma fold_add_sample:
  "fold (accumulate add_sample) xs (a, b, c) =
     (a + axis_sum x_of xs, b + axis_sum y_of xs, c + axis_sum z_of xs)"
  by (induction xs arbitrary: a b c)
     (auto simp: accumulate_def add_sample_def axis_sum_def x_of_def y_of_def z_of_def)

lemma fold_sub_sample:
  "fold (accumulate sub_sample) xs (a, b, c) =
     (a - axis_sum x_of xs, b - axis_sum y_of xs, c - axis_sum z_of xs)"
  by (induction xs arbitrary: a b c)
     (auto simp: accumulate_def sub_sample_def axis_sum_def x_of_def y_of_def z_of_def)

lemma axis_totals_sums:
  "axis_totals e gain n s =
     (axis_sum x_of (pos_samples e gain n s) - axis_sum x_of (neg_samples e gain n s),
      axis_sum y_of (pos_samples e gain n s) - axis_sum y_of (neg_samples e gain n s),
      axis_sum z_of (pos_samples e gain n s) - axis_sum z_of (neg_samples e gain n s))"
  by (simp add: axis_totals_def pos_totals_def fold_add_sample fold_sub_sample)

lemma self_test_passed_sums:
  "self_test_passed e gain n s =
     (\<not> (\<exists>xyz\<in>set (pos_samples e gain n s). saturated xyz) \<and>
      \<not> (\<exists>xyz\<in>set (neg_samples e gain n s). saturated xyz) \<and>
      within_limits (low_limit e gain n) (high_limit e gain n)
        (axis_sum x_of (pos_samples e gain n s) - axis_sum x_of (neg_samples e gain n s),
         axis_sum y_of (pos_samples e gain n s) - axis_sum y_of (neg_samples e gain n s),
         axis_sum z_of (pos_samples e gain n s) - axis_sum z_of (neg_samples e gain n s)))"
  by (simp add: self_test_passed_def axis_totals_sums list_ex_iff)

subsection \<open>The self test, path by path\<close>

lemma getID_state:
  "getID e s = (fst (getID e s),
     s\<lparr>io := io s @ [Reg_read (HMC58X3_R_IDA e) 3],
       rosout := rosout s @ [case fst (getID e s) of (a, b, c) \<Rightarrow> Info_id a b c]\<rparr>)"
  by (simp add: getID_def i2c_read_def ROS_INFO_def Let_def split: prod.splits)

lemma getID_accepted:
  assumes "id_accepted e s"
  shows "getID e s = ((0x48, 0x34, 0x33),
     s\<lparr>io := io s @ [Reg_read (HMC58X3_R_IDA e) 3],
       rosout := rosout s @ [Info_id 0x48 0x34 0x33]\<rparr>)"
  using assms getID_state [of e s] by (simp add: id_accepted_def)

lemma getID_bytes:
  "fst (getID e s) =
     (let r = i2c_device e (io s) (HMC58X3_R_IDA e) 3
      in if rd_ok r then (rd_buf r 0, rd_buf r 1, rd_buf r 2) else (0, 0, 0))"
  by (simp add: getID_def i2c_read_def Let_def split: prod.splits)

lemma setGain_valid:
  "gain < 8 \<Longrightarrow> setGain e gain s = s\<lparr>io := io s @ [Reg_write (HMC58X3_R_CONFB e) (push_bit 5 gain)]\<rparr>"
  by (simp add: setGain_def writeReg_def word_less_nat_alt word_le_nat_alt not_less)

lemma calibrate_bad:
  assumes "7 < gain \<or> n = 0"
  shows "calibrate e gain n s =
     (False, s\<lparr>rosout := rosout s @ [Debug_print ''HMC58x3 Bad parameters.'']\<rparr>)"
proof -
  from assms have c: "(gain < 8 \<and> 0 < n) = False"
    by (auto simp: word_less_nat_alt)
  show ?thesis
    unfolding calibrate_def c by (simp add: DEBUG_PRINT_def ROS_INFO_def)
qed

lemma calibrate_rejected:
  assumes "gain < 8" and "0 < n" and "\<not> id_accepted e s"
  shows "calibrate e gain n s =
     (False, s\<lparr>io := io s @ [Reg_read (HMC58X3_R_IDA e) 3],
               rosout := rosout s @ [case fst (getID e s) of (a, b, c) \<Rightarrow> Info_id a b c,
                                     Debug_print (failed_id_text e)]\<rparr>)"
proof -
  have "calibrate e gain n s = (False, DEBUG_PRINT (failed_id_text e) (snd (getID e s)))"
    using assms by (simp add: calibrate_def id_accepted_def split_beta Let_def)
  also have "snd (getID e s) = s\<lparr>io := io s @ [Reg_read (HMC58X3_R_IDA e) 3],
       rosout := rosout s @ [case fst (getID e s) of (a, b, c) \<Rightarrow> Info_id a b c]\<rparr>"
    by (subst getID_state) simp
  finally show ?thesis by (simp add: DEBUG_PRINT_def ROS_INFO_def)
qed

lemma calibrate_run:
  assumes "gain < 8" and "0 < n" and "id_accepted e s"
  shows "calibrate e gain n s =
     (self_test_passed e gain n s,
      s\<lparr>x_scale := (if self_test_passed e gain n s
                     then self_test_scale e (HMC58X3_X_SELF_TEST_GAUSS e) gain n (fst (axis_totals e gain n s))
                     else x_scale s),
        y_scale := (if self_test_passed e gain n s
                     then self_test_scale e (HMC58X3_Y_SELF_TEST_GAUSS e) gain n (fst (snd (axis_totals e gain n s)))
                     else y_scale s),
        z_scale := (if self_test_passed e gain n s
                     then self_test_scale e (HMC58X3_Z_SELF_TEST_GAUSS e) gain n (snd (snd (axis_totals e gain n s)))
                     else z_scale s),
        io := neg_start e gain n s @ phase_ops e (length (neg_samples e gain n s)) @
              [Reg_write (HMC58X3_R_CONFA e) 0x10],
        rosout := rosout s @ [Info_id 0x48 0x34 0x33] @
              phase_lines (pos_samples e gain n s) @ [totals_line (pos_totals e gain n s)] @
              phase_lines (neg_samples e gain n s) @
              [totals_line (axis_totals e gain n s),
               Info_limits (low_limit e gain n) (high_limit e gain n)] @
              (if self_test_passed e gain n s then []
               else [Debug_print ''HMC58x3 Self test out of range.''])\<rparr>)"
proof -
  define s1 where "s1 = s\<lparr>io := io s @ [Reg_read (HMC58X3_R_IDA e) 3],
                       rosout := rosout s @ [Info_id 0x48 0x34 0x33]\<rparr>"
  define s5 where "s5 = s\<lparr>io := pos_start e gain s, rosout := rosout s @ [Info_id 0x48 0x34 0x33]\<rparr>"
  define s8 where "s8 = s\<lparr>io := neg_start e gain n s,
                        rosout := rosout s @ [Info_id 0x48 0x34 0x33] @
                          phase_lines (pos_samples e gain n s) @ [totals_line (pos_totals e gain n s)]\<rparr>"
  define s11 where "s11 = s\<lparr>io := neg_start e gain n s @ phase_ops e (length (neg_samples e gain n s)),
                        rosout := rosout s @ [Info_id 0x48 0x34 0x33] @
                          phase_lines (pos_samples e gain n s) @ [totals_line (pos_totals e gain n s)] @
                          phase_lines (neg_samples e gain n s) @
                          [totals_line (axis_totals e gain n s),
                           Info_limits (low_limit e gain n) (high_limit e gain n)]\<rparr>"
  have id: "getID e s = ((0x48, 0x34, 0x33), s1)"
    by (simp add: getID_accepted [OF assms(3)] s1_def)
  have pre: "snd (getRaw e (setMode e 1 (setGain e gain
               (writeReg (HMC58X3_R_CONFA e) (word_of_int (0x010 + HMC_POS_BIAS e)) s1)))) = s5"
    using assms(1)
    by (simp add: s1_def s5_def sample_step setGain_valid writeReg_def
        pos_start_def pos_bias_value_def)
  have loop1: "bias_loop e add_sample (unat n) True (0, 0, 0) s5 =
      (\<not> list_ex saturated (pos_samples e gain n s), pos_totals e gain n s,
       s5\<lparr>io := pos_start e gain s @ phase_ops e (length (pos_samples e gain n s)),
          rosout := rosout s5 @ phase_lines (pos_samples e gain n s)\<rparr>)"
    by (simp add: bias_loop_run s5_def pos_samples_def pos_totals_def)
  have mid: "writeReg (HMC58X3_R_CONFA e) (word_of_int (0x010 + HMC_NEG_BIAS e))
       (ROS_INFO (totals_line (pos_totals e gain n s))
          (s5\<lparr>io := pos_start e gain s @ phase_ops e (length (pos_samples e gain n s)),
              rosout := rosout s5 @ phase_lines (pos_samples e gain n s)\<rparr>)) = s8"
    by (simp add: writeReg_def ROS_INFO_def s5_def s8_def neg_start_def neg_bias_value_def)
  have loop2: "bias_loop e sub_sample (unat n) b (pos_totals e gain n s) s8 =
      (b \<and> \<not> list_ex saturated (neg_samples e gain n s), axis_totals e gain n s,
       s8\<lparr>io := neg_start e gain n s @ phase_ops e (length (neg_samples e gain n s)),
          rosout := rosout s8 @ phase_lines (neg_samples e gain n s)\<rparr>)" for b
    by (simp add: bias_loop_run s8_def neg_samples_def axis_totals_def)
  have fin: "ROS_INFO (Info_limits (low_limit e gain n) (high_limit e gain n))
       (ROS_INFO (totals_line (axis_totals e gain n s))
          (s8\<lparr>io := neg_start e gain n s @ phase_ops e (length (neg_samples e gain n s)),
              rosout := rosout s8 @ phase_lines (neg_samples e gain n s)\<rparr>)) = s11"
    by (simp add: ROS_INFO_def s8_def s11_def)
  have tl: "(case t of (tx, ty, tz) \<Rightarrow> ROS_INFO (Info_totals tx ty tz) u) = ROS_INFO (totals_line t) u"
    for t and u :: "'a hmc58x3"
    by (simp add: totals_line_def split: prod.splits)
  have unfolded: "calibrate e gain n s =
     (if self_test_passed e gain n s
      then (True, writeReg (HMC58X3_R_CONFA e) 0x010
         (s11\<lparr>x_scale := self_test_scale e (HMC58X3_X_SELF_TEST_GAUSS e) gain n (fst (axis_totals e gain n s)),
              y_scale := self_test_scale e (HMC58X3_Y_SELF_TEST_GAUSS e) gain n (fst (snd (axis_totals e gain n s))),
              z_scale := self_test_scale e (HMC58X3_Z_SELF_TEST_GAUSS e) gain n (snd (snd (axis_totals e gain n s)))\<rparr>))
      else (False, writeReg (HMC58X3_R_CONFA e) 0x010
         (DEBUG_PRINT ''HMC58x3 Self test out of range.'' s11)))"
    unfolding calibrate_def Let_def id tl
    using assms(1,2)
    apply (simp only: if_True simp_thms prod.case split_beta pre loop1 fst_conv snd_conv mid loop2 fin
      low_limit_def [symmetric] high_limit_def [symmetric])
    apply (simp add: self_test_passed_def del: of_int_add)
    done
  show ?thesis
    unfolding unfolded
    by (simp add: s11_def writeReg_def DEBUG_PRINT_def ROS_INFO_def)
qed

lemma calibrate_result:
  assumes "gain < 8" and "0 < n" and "id_accepted e s"
  shows "fst (calibrate e gain n s) = self_test_passed e gain n s"
  by (simp add: calibrate_run [OF assms])

lemma calibrate_io:
  assumes "gain < 8" and "0 < n" and "id_accepted e s"
  shows "io (snd (calibrate e gain n s)) =
     neg_start e gain n s @ phase_ops e (length (neg_samples e gain n s)) @
     [Reg_write (HMC58X3_R_CONFA e) 0x10]"
  by (simp add: calibrate_run [OF assms])

lemma calibrate_rosout:
  assumes "gain < 8" and "0 < n" and "id_accepted e s"
  shows "rosout (snd (calibrate e gain n s)) =
     rosout s @ [Info_id 0x48 0x34 0x33] @
     phase_lines (pos_samples e gain n s) @ [totals_line (pos_totals e gain n s)] @
     phase_lines (neg_samples e gain n s) @
     [totals_line (axis_totals e gain n s),
      Info_limits (low_limit e gain n) (high_limit e gain n)] @
     (if self_test_passed e gain n s then []
      else [Debug_print ''HMC58x3 Self test out of range.''])"
  by (simp add: calibrate_run [OF assms])

lemma calibrate_scales:
  assumes "gain < 8" and "0 < n" and "id_accepted e s"
  shows "scales (snd (calibrate e gain n s)) =
     (if self_test_passed e gain n s
      then (self_test_scale e (HMC58X3_X_SELF_TEST_GAUSS e) gain n (fst (axis_totals e gain n s)),
            self_test_scale e (HMC58X3_Y_SELF_TEST_GAUSS e) gain n (fst (snd (axis_totals e gain n s))),
            self_test_scale e (HMC58X3_Z_SELF_TEST_GAUSS e) gain n (snd (snd (axis_totals e gain n s))))
      else scales s)"
  by (simp add: calibrate_run [OF assms] scales_def)

lemma calibrate_true_accepted:
  assumes "fst (calibrate e gain n s)"
  shows "gain < 8 \<and> 0 < n \<and> id_accepted e s"
proof -
  have v: "gain < 8 \<and> 0 < n"
  proof (rule ccontr)
    assume "\<not> (gain < 8 \<and> 0 < n)"
    then have c: "(gain < 8 \<and> 0 < n) = False" by simp
    from assms show False unfolding calibrate_def c by simp
  qed
  moreover have "id_accepted e s"
    using assms v calibrate_rejected [of gain n e s] by (cases "id_accepted e s") simp_all
  ultimately show ?thesis by simp
qed

subsection \<open>Bus events of a run\<close>

lemma count_phase_ops: "count_list (phase_ops e m) (Reg_write r 0x10) = 0"
  by (induction m) (simp_all add: phase_ops_def sample_ops_def)

lemma gain_bits_not_restore: "push_bit 5 gain \<noteq> (0x10 :: byte)"
proof
  assume "push_bit 5 gain = (0x10 :: byte)"
  then have "take_bit 5 (push_bit 5 gain) = take_bit 5 (0x10 :: byte)" by simp
  then show False by (simp add: take_bit_push_bit)
qed

subsection \<open>Big-endian words\<close>

lemma be16_value: "push_bit 8 (uint hi) OR uint lo = 256 * uint hi + uint lo" for hi lo :: byte
proof -
  have "push_bit 8 (uint hi) + uint lo = push_bit 8 (uint hi) OR uint lo"
    by (rule disjunctive_add) (auto simp: bit_push_bit_iff bit_uint_iff dest: bit_imp_le_length)
  then show ?thesis by (simp add: push_bit_eq_mult)
qed

lemma be16_range: "0 \<le> 256 * uint hi + uint lo \<and> 256 * uint hi + uint lo < 65536" for hi lo :: byte
proof -
  have "uint hi < 256" "uint lo < 256" using uint_lt2p [of hi] uint_lt2p [of lo] by simp_all
  moreover have "0 \<le> uint hi" "0 \<le> uint lo" by simp_all
  ultimately show ?thesis by linarith
qed

lemma sint_word16_of_int:
  assumes "0 \<le> v" and "v < 65536"
  shows "sint (word_of_int v :: int16) = signed16 v"
proof -
  have "sint (word_of_int v :: int16) = (v + 2 ^ 15) mod 2 ^ 16 - 2 ^ 15"
    by (simp add: int_word_sint)
  also have "\<dots> = signed16 v"
  proof (cases "v < 2 ^ 15")
    case True
    with assms have "(v + 2 ^ 15) mod 2 ^ 16 = v + 2 ^ 15" by simp
    with True show ?thesis by (simp add: signed16_def)
  next
    case False
    have "v + 2 ^ 15 = v - 2 ^ 15 + 2 ^ 16"
      by simp
    then have "(v + 2 ^ 15) mod 2 ^ 16 = (v - 2 ^ 15 + 2 ^ 16) mod 2 ^ 16"
      by (rule arg_cong)
    also have "\<dots> = (v - 2 ^ 15) mod 2 ^ 16"
      by (simp only: mod_add_self2)
    also have "\<dots> = v - 2 ^ 15"
      using assms False by simp
    finally have "(v + 2 ^ 15) mod 2 ^ 16 = v + 2 ^ 15 - 2 ^ 16"
      by simp
    with False show ?thesis by (simp add: signed16_def)
  qed
  finally show ?thesis .
qed

lemma sint_be16: "sint (be16 hi lo) = signed16 (256 * uint hi + uint lo)"
  unfolding be16_def be16_value using be16_range [of hi lo] by (intro sint_word16_of_int) simp_all

subsection \<open>The loop of the simple calibration\<close>

lemma getValues_float_eq:
  "getValues_float e s =
     (case device_sample e (io s) of (x, y, z) \<Rightarrow>
        (s_div e (s_of_int e (sint x)) (x_scale s),
         s_div e (s_of_int e (sint y)) (y_scale s),
         s_div e (s_of_int e (sint z)) (z_scale s)),
      s\<lparr>io := io s @ [Reg_read (HMC58X3_R_XM e) 6]\<rparr>)"
  by (simp add: getValues_float_def getRaw_eq split: prod.splits)

lemma max_loop_run:
  assumes "x_scale s = s_of_int e 1" and "y_scale s = s_of_int e 1" and "z_scale s = s_of_int e 1"
  shows "max_loop e k m s =
     (running_max e m (map (unit_reading e) (free_samples e k (io s))),
      s\<lparr>io := io s @ phase_ops e k\<rparr>)"
  using assms
proof (induction k arbitrary: m s)
  case 0
  then show ?case by (simp add: phase_ops_def)
next
  case (Suc k)
  obtain mx my mz where m: "m = (mx, my, mz)" by (cases m)
  let ?s1 = "s\<lparr>io := io s @ sample_ops e\<rparr>"
  have step: "getValues_float e (setMode e 1 s) =
      (unit_reading e (device_sample e (io s @ [Reg_write (HMC58X3_R_MODE e) 1, Sleep_ms 100])), ?s1)"
    using Suc.prems
    by (simp add: getValues_float_eq setMode_1 unit_reading_def sample_ops_def split: prod.splits)
  have ih: "max_loop e k m' ?s1 =
     (running_max e m' (map (unit_reading e) (free_samples e k (io ?s1))),
      ?s1\<lparr>io := io ?s1 @ phase_ops e k\<rparr>)" for m'
    using Suc.prems by (intro Suc.IH) simp_all
  obtain x y z where u: "unit_reading e (device_sample e (io s @ [Reg_write (HMC58X3_R_MODE e) 1, Sleep_ms 100])) = (x, y, z)"
    by (cases "unit_reading e (device_sample e (io s @ [Reg_write (HMC58X3_R_MODE e) 1, Sleep_ms 100]))")
  show ?case
    unfolding m by (simp add: step u ih phase_ops_def)
qed

subsection \<open>Runs on the test bench\<close>

lemma good_accepted: "id_accepted (bench good_device) fresh"
  by code_simp

lemma good_run: "fst (calibrate (bench good_device) 1 2 fresh)"
  by code_simp

lemma masked_accepted: "id_accepted (bench masked_device) fresh"
  by code_simp

section \<open>Properties\<close>

subsection \<open>Raw and calibrated readings\<close>

text \<open>
  C8. Whatever the six bytes a data read leaves in the buffer, \<^verbatim>\<open>getRaw\<close> returns as X
  the two's-complement value of bytes 0 and 1 taken big-endian; on the HMC5843 bytes 2,
  3 give Y and bytes 4, 5 give Z, on the HMC5883L bytes 2, 3 give Z and bytes 4, 5 give Y.
\<close>

theorem getRaw_big_endian:
  "(let rx = rd_buf (i2c_device e (io s) (HMC58X3_R_XM e) 6)
    in case fst (getRaw e s) of (x, y, z) \<Rightarrow>
      sint x = signed16 (256 * uint (rx 0) + uint (rx 1)) \<and>
      (if ISHMC5843 e
       then sint y = signed16 (256 * uint (rx 2) + uint (rx 3)) \<and>
            sint z = signed16 (256 * uint (rx 4) + uint (rx 5))
       else sint z = signed16 (256 * uint (rx 2) + uint (rx 3)) \<and>
            sint y = signed16 (256 * uint (rx 4) + uint (rx 5))))"
  by (simp add: getRaw_eq device_sample_def Let_def sint_be16)

text \<open>
  C9. The \<^verbatim>\<open>int16_t\<close> overload of getValues adds 0.5 to each calibrated value and
  converts to \<^verbatim>\<open>int16_t\<close>, which drops the fraction towards zero. On the test bench
  (unit scale factors, exact arithmetic: every number below is representable in
  binary floating point, where the operations are exact as well), a raw X reading of
  -3 is the calibrated value -3 and comes back as -2, while the positive readings 2
  and 7 come back as they are.
\<close>

theorem getValues_int16_negative_reading:
  "scales fresh = (1, 1, 1) \<and>
   fst (getRaw (bench negative_device) fresh) = (- 3, 2, 7) \<and>
   fst (getValues_float (bench negative_device) fresh) = (- 3, 2, 7) \<and>
   fst (getValues_int16 (bench negative_device) fresh) = (- 2, 2, 7)"
proof -
  have "scales fresh = (1, 1, 1)" by (simp add: scales_def fresh_def)
  moreover have "fst (getRaw (bench negative_device) fresh) = (- 3, 2, 7)" by code_simp
  moreover have "fst (getValues_float (bench negative_device) fresh) = (- 3, 2, 7)" by code_simp
  moreover have "fst (getValues_int16 (bench negative_device) fresh) = (- 2, 2, 7)" by code_simp
  ultimately show ?thesis by (intro conjI)
qed

subsection \<open>Setters\<close>

text \<open>
  C7. An out-of-range argument makes \<^verbatim>\<open>setMode\<close> (mode above 2), \<^verbatim>\<open>setGain\<close> (gain
  above 7) and \<^verbatim>\<open>setDOR\<close> (rate above 6) return at once: the state after the call is
  the state before it, so nothing is written to a register and the scale factors stay.
\<close>

theorem setters_ignore_out_of_range:
  "(2 < mode \<longrightarrow> setMode e mode s = s) \<and>
   (7 < gain \<longrightarrow> setGain e gain s = s) \<and>
   (6 < rate \<longrightarrow> setDOR e rate s = s)"
  by (simp add: setMode_def setGain_def setDOR_def)

theorem setters_ignore_out_of_range_witness:
  "(2 :: byte) < 3 \<and> (7 :: byte) < 8 \<and> (6 :: byte) < 7 \<and>
   setMode (bench good_device) 3 fresh = fresh \<and>
   setGain (bench good_device) 8 fresh = fresh \<and>
   setDOR (bench good_device) 7 fresh = fresh"
  using setters_ignore_out_of_range [of 3 "bench good_device" fresh 8 7]
  by simp

subsection \<open>The simple calibration\<close>

text \<open>
  C10. Whatever the gain, \<^verbatim>\<open>calibrate(gain)\<close> first sets the three scale factors to
  one: its result does not depend on the scale factors it was called with, and the
  maxima it records are the running maxima, starting from zero, of the ten raw
  readings each divided by one. The scale factors it leaves are the largest of the
  three maxima divided by each maximum.
\<close>

theorem calibrate_simple_unit_scale:
  "calibrate_simple e gain (s\<lparr>x_scale := a, y_scale := b, z_scale := c\<rparr>) = calibrate_simple e gain s \<and>
   (let s' = calibrate_simple e gain s;
        zero = s_of_int e 0;
        larger = (\<lambda>u v. if s_gt e u v then u else v);
        top = larger (z_max s') (larger (y_max s') (larger (x_max s') zero))
    in (x_max s', y_max s', z_max s') =
         running_max e (zero, zero, zero)
           (map (unit_reading e) (free_samples e 10 (simple_start e gain s))) \<and>
       scales s' = (s_div e top (x_max s'), s_div e top (y_max s'), s_div e top (z_max s')) \<and>
       io s' = simple_start e gain s @ phase_ops e 10 @ [Reg_write (HMC58X3_R_CONFA e) 0x10])"
proof -
  let ?s2 = "setGain e gain (writeReg (HMC58X3_R_CONFA e) (word_of_int (0x010 + HMC_POS_BIAS e))
      (s\<lparr>x_scale := s_of_int e 1, y_scale := s_of_int e 1, z_scale := s_of_int e 1\<rparr>))"
  have io2: "io ?s2 = simple_start e gain s"
    by (simp add: setGain_def writeReg_def simple_start_def pos_bias_value_def)
  have sc: "x_scale ?s2 = s_of_int e 1" "y_scale ?s2 = s_of_int e 1" "z_scale ?s2 = s_of_int e 1"
    by (simp_all add: setGain_def writeReg_def)
  note loop = max_loop_run [OF sc, of 10 "(s_of_int e 0, s_of_int e 0, s_of_int e 0)", unfolded io2]
  obtain mx my mz where r: "running_max e (s_of_int e 0, s_of_int e 0, s_of_int e 0)
      (map (unit_reading e) (free_samples e 10 (simple_start e gain s))) = (mx, my, mz)"
    by (cases "running_max e (s_of_int e 0, s_of_int e 0, s_of_int e 0)
      (map (unit_reading e) (free_samples e 10 (simple_start e gain s)))")
  have first: "calibrate_simple e gain (s\<lparr>x_scale := a, y_scale := b, z_scale := c\<rparr>) = calibrate_simple e gain s"
    by (simp add: calibrate_simple_def)
  have rest: "(let s' = calibrate_simple e gain s;
        zero = s_of_int e 0;
        larger = (\<lambda>u v. if s_gt e u v then u else v);
        top = larger (z_max s') (larger (y_max s') (larger (x_max s') zero))
    in (x_max s', y_max s', z_max s') =
         running_max e (zero, zero, zero)
           (map (unit_reading e) (free_samples e 10 (simple_start e gain s))) \<and>
       scales s' = (s_div e top (x_max s'), s_div e top (y_max s'), s_div e top (z_max s')) \<and>
       io s' = simple_start e gain s @ phase_ops e 10 @ [Reg_write (HMC58X3_R_CONFA e) 0x10])"
    unfolding calibrate_simple_def Let_def loop r
    by (simp add: writeReg_def scales_def io2 del: of_int_add)
  from first rest show ?thesis by (rule conjI)
qed

subsection \<open>The self test: rejected calls\<close>

text \<open>
  C5. With a gain above 7 or a sample count of zero, \<^verbatim>\<open>calibrate(gain, n_samples)\<close>
  returns false and only logs the bad-parameters line: no event is added to the bus
  traffic (no read, no write, no sleep), and the scale factors and maxima are as before.
\<close>

theorem calibrate_bad_parameters:
  assumes "7 < gain \<or> n_samples = 0"
  shows "calibrate e gain n_samples s =
           (False, s\<lparr>rosout := rosout s @ [Debug_print ''HMC58x3 Bad parameters.'']\<rparr>) \<and>
         io (snd (calibrate e gain n_samples s)) = io s \<and>
         scales (snd (calibrate e gain n_samples s)) = scales s"
  using calibrate_bad [OF assms, of e s] by (simp add: scales_def)

theorem calibrate_bad_parameters_witness:
  "((7 :: byte) < 8 \<or> (5 :: uint32) = 0) \<and> ((7 :: byte) < 1 \<or> (0 :: uint32) = 0) \<and>
   \<not> fst (calibrate (bench good_device) 8 5 fresh) \<and>
   io (snd (calibrate (bench good_device) 8 5 fresh)) = [] \<and>
   scales (snd (calibrate (bench good_device) 8 5 fresh)) = (1, 1, 1) \<and>
   \<not> fst (calibrate (bench good_device) 1 0 fresh) \<and>
   io (snd (calibrate (bench good_device) 1 0 fresh)) = [] \<and>
   scales (snd (calibrate (bench good_device) 1 0 fresh)) = (1, 1, 1)"
proof -
  have a: "(7 :: byte) < 8 \<or> (5 :: uint32) = 0" by simp
  have b: "(7 :: byte) < 1 \<or> (0 :: uint32) = 0" by simp
  show ?thesis
    using a b calibrate_bad_parameters [OF a, of "bench good_device" fresh]
      calibrate_bad_parameters [OF b, of "bench good_device" fresh]
    by (simp add: fresh_def scales_def)
qed

text \<open>
  C6. With valid parameters, when the three bytes the device answers to the identity
  read are not 'H', '4', '3', \<^verbatim>\<open>calibrate(gain, n_samples)\<close> returns false; the only
  bus event of the call is that read, so no register is written, and the scale factors
  are as before.
\<close>

theorem calibrate_identity_mismatch:
  assumes "gain < 8" and "0 < n_samples"
    and "(rd_buf (i2c_device e (io s) (HMC58X3_R_IDA e) 3) 0,
          rd_buf (i2c_device e (io s) (HMC58X3_R_IDA e) 3) 1,
          rd_buf (i2c_device e (io s) (HMC58X3_R_IDA e) 3) 2) \<noteq> (0x48, 0x34, 0x33)"
  shows "\<not> fst (calibrate e gain n_samples s) \<and>
         io (snd (calibrate e gain n_samples s)) = io s @ [Reg_read (HMC58X3_R_IDA e) 3] \<and>
         scales (snd (calibrate e gain n_samples s)) = scales s"
proof -
  from assms(3) have "\<not> id_accepted e s"
    by (auto simp: id_accepted_def getID_bytes Let_def split: if_splits)
  from calibrate_rejected [OF assms(1,2) this] show ?thesis
    by (simp add: scales_def)
qed

theorem calibrate_identity_mismatch_witness:
  "(1 :: byte) < 8 \<and> (0 :: uint32) < 3 \<and>
   (rd_buf (i2c_device (bench foreign_device) (io fresh) (HMC58X3_R_IDA (bench foreign_device)) 3) 0,
    rd_buf (i2c_device (bench foreign_device) (io fresh) (HMC58X3_R_IDA (bench foreign_device)) 3) 1,
    rd_buf (i2c_device (bench foreign_device) (io fresh) (HMC58X3_R_IDA (bench foreign_device)) 3) 2)
     = (0x48, 0x34, 0x34) \<and>
   \<not> fst (calibrate (bench foreign_device) 1 3 fresh) \<and>
   io (snd (calibrate (bench foreign_device) 1 3 fresh)) = [Reg_read 10 3] \<and>
   scales (snd (calibrate (bench foreign_device) 1 3 fresh)) = (1, 1, 1)"
proof -
  have a: "(1 :: byte) < 8" and b: "(0 :: uint32) < 3" by simp_all
  have bytes: "(rd_buf (i2c_device (bench foreign_device) (io fresh) (HMC58X3_R_IDA (bench foreign_device)) 3) 0,
    rd_buf (i2c_device (bench foreign_device) (io fresh) (HMC58X3_R_IDA (bench foreign_device)) 3) 1,
    rd_buf (i2c_device (bench foreign_device) (io fresh) (HMC58X3_R_IDA (bench foreign_device)) 3) 2)
     = (0x48, 0x34, 0x34)"
    by (simp add: bench_def foreign_device_def scripted_device_def buffer_of_def)
  then have c: "(rd_buf (i2c_device (bench foreign_device) (io fresh) (HMC58X3_R_IDA (bench foreign_device)) 3) 0,
    rd_buf (i2c_device (bench foreign_device) (io fresh) (HMC58X3_R_IDA (bench foreign_device)) 3) 1,
    rd_buf (i2c_device (bench foreign_device) (io fresh) (HMC58X3_R_IDA (bench foreign_device)) 3) 2)
     \<noteq> (0x48, 0x34, 0x33)"
    by simp
  show ?thesis
    using a b bytes calibrate_identity_mismatch [OF a b c]
    by (simp add: fresh_def scales_def bench_def)
qed

subsection \<open>The self test: accepted calls\<close>

text \<open>
  C1. With a gain below 8, a positive sample count and an accepted identity,
  \<^verbatim>\<open>calibrate(gain, n_samples)\<close> returns true exactly when no sample of the positive
  phase and no sample of the negative phase is saturated and each of the three totals
  (the positive samples added, the negative ones subtracted) lies between the low and
  the high limit, inclusive; the limits are the low and high factor times the
  counts per milligauss of the gain, times 2, times the sample count, computed in
  floating point and stored in the source's \<^verbatim>\<open>int32_t\<close> variables.
\<close>

theorem calibrate_succeeds_iff:
  assumes "gain < 8" and "0 < n_samples" and "id_accepted e s"
  shows "fst (calibrate e gain n_samples s) \<longleftrightarrow>
     (let ps = pos_samples e gain n_samples s;
          ns = neg_samples e gain n_samples s;
          cpm = d_of_int e (counts_per_milligauss e (unat gain));
          lowLimit = d_to_int32 e
            (d_mul e (d_mul e (d_mul e (SELF_TEST_LOW_LIMIT e) cpm) (d_of_int e 2))
               (d_of_int e (uint n_samples)));
          highLimit = d_to_int32 e
            (d_mul e (d_mul e (d_mul e (SELF_TEST_HIGH_LIMIT e) cpm) (d_of_int e 2))
               (d_of_int e (uint n_samples)));
          tx = axis_sum x_of ps - axis_sum x_of ns;
          ty = axis_sum y_of ps - axis_sum y_of ns;
          tz = axis_sum z_of ps - axis_sum z_of ns
      in \<not> (\<exists>xyz\<in>set ps. saturated xyz) \<and> \<not> (\<exists>xyz\<in>set ns. saturated xyz) \<and>
         sint lowLimit \<le> sint tx \<and> sint tx \<le> sint highLimit \<and>
         sint lowLimit \<le> sint ty \<and> sint ty \<le> sint highLimit \<and>
         sint lowLimit \<le> sint tz \<and> sint tz \<le> sint highLimit)"
  unfolding calibrate_result [OF assms] self_test_passed_sums
  by (simp add: Let_def within_limits_def low_limit_def high_limit_def self_test_limit_def)

theorem calibrate_succeeds_iff_witness:
  "(1 :: byte) < 8 \<and> (0 :: uint32) < 2 \<and> id_accepted (bench good_device) fresh \<and>
   fst (calibrate (bench good_device) 1 2 fresh) \<and>
   pos_samples (bench good_device) 1 2 fresh = [(1000, 1000, 1000), (1000, 1000, 1000)] \<and>
   neg_samples (bench good_device) 1 2 fresh = [(- 1000, - 1000, - 1000), (- 1000, - 1000, - 1000)] \<and>
   low_limit (bench good_device) 1 2 = 2716 \<and> high_limit (bench good_device) 1 2 = 6428"
proof -
  have a: "(1 :: byte) < 8" and b: "(0 :: uint32) < 2" by simp_all
  have rhs: "(let ps = pos_samples (bench good_device) 1 2 fresh;
          ns = neg_samples (bench good_device) 1 2 fresh;
          cpm = d_of_int (bench good_device) (counts_per_milligauss (bench good_device) (unat (1 :: byte)));
          lowLimit = d_to_int32 (bench good_device)
            (d_mul (bench good_device) (d_mul (bench good_device) (d_mul (bench good_device) (SELF_TEST_LOW_LIMIT (bench good_device)) cpm) (d_of_int (bench good_device) 2))
               (d_of_int (bench good_device) (uint (2 :: uint32))));
          highLimit = d_to_int32 (bench good_device)
            (d_mul (bench good_device) (d_mul (bench good_device) (d_mul (bench good_device) (SELF_TEST_HIGH_LIMIT (bench good_device)) cpm) (d_of_int (bench good_device) 2))
               (d_of_int (bench good_device) (uint (2 :: uint32))));
          tx = axis_sum x_of ps - axis_sum x_of ns;
          ty = axis_sum y_of ps - axis_sum y_of ns;
          tz = axis_sum z_of ps - axis_sum z_of ns
      in \<not> (\<exists>xyz\<in>set ps. saturated xyz) \<and> \<not> (\<exists>xyz\<in>set ns. saturated xyz) \<and>
         sint lowLimit \<le> sint tx \<and> sint tx \<le> sint highLimit \<and>
         sint lowLimit \<le> sint ty \<and> sint ty \<le> sint highLimit \<and>
         sint lowLimit \<le> sint tz \<and> sint tz \<le> sint highLimit)"
    by code_simp
  have r: "fst (calibrate (bench good_device) 1 2 fresh)"
    using calibrate_succeeds_iff [OF a b good_accepted] rhs by (rule iffD2)
  have ps: "pos_samples (bench good_device) 1 2 fresh = [(1000, 1000, 1000), (1000, 1000, 1000)]"
    by code_simp
  have ns: "neg_samples (bench good_device) 1 2 fresh = [(- 1000, - 1000, - 1000), (- 1000, - 1000, - 1000)]"
    by code_simp
  have lo: "low_limit (bench good_device) 1 2 = 2716" by code_simp
  have hi: "high_limit (bench good_device) 1 2 = 6428" by code_simp
  from a b good_accepted r ps ns lo hi show ?thesis by (intro conjI)
qed

text \<open>
  C2. When \<^verbatim>\<open>calibrate(gain, n_samples)\<close> returns true, both phases took all
  \<^verbatim>\<open>n_samples\<close> samples, and each scale factor is the counts per milligauss of the
  gain times twice the axis's self-test field, divided by the quotient of the axis
  total by \<^verbatim>\<open>n_samples\<close>, where the axis total is the sum of the positive-bias samples
  minus the sum of the negative-bias samples. The quotient is the source's integer
  division; the rest is floating point, rounded to \<^verbatim>\<open>float\<close> on assignment.
\<close>

theorem calibrate_scale_factors:
  assumes "fst (calibrate e gain n_samples s)"
  shows
    "(let ps = pos_samples e gain n_samples s;
          ns = neg_samples e gain n_samples s;
          cpm = d_of_int e (counts_per_milligauss e (unat gain));
          tx = axis_sum x_of ps - axis_sum x_of ns;
          ty = axis_sum y_of ps - axis_sum y_of ns;
          tz = axis_sum z_of ps - axis_sum z_of ns;
          s' = snd (calibrate e gain n_samples s)
      in length ps = unat n_samples \<and> length ns = unat n_samples \<and>
         x_scale s' = s_of_d e (d_div e
           (d_mul e cpm (d_mul e (HMC58X3_X_SELF_TEST_GAUSS e) (d_of_int e 2)))
           (d_of_int e (uint (tx div n_samples)))) \<and>
         y_scale s' = s_of_d e (d_div e
           (d_mul e cpm (d_mul e (HMC58X3_Y_SELF_TEST_GAUSS e) (d_of_int e 2)))
           (d_of_int e (uint (ty div n_samples)))) \<and>
         z_scale s' = s_of_d e (d_div e
           (d_mul e cpm (d_mul e (HMC58X3_Z_SELF_TEST_GAUSS e) (d_of_int e 2)))
           (d_of_int e (uint (tz div n_samples)))))"
proof -
  from calibrate_true_accepted [OF assms]
  have v: "gain < 8" "0 < n_samples" "id_accepted e s" by simp_all
  from assms have p: "self_test_passed e gain n_samples s"
    by (simp add: calibrate_result [OF v])
  then have "length (pos_samples e gain n_samples s) = unat n_samples"
    and "length (neg_samples e gain n_samples s) = unat n_samples"
    by (simp_all add: self_test_passed_def pos_samples_def neg_samples_def phase_samples_complete)
  moreover from calibrate_scales [OF v] p
  have "scales (snd (calibrate e gain n_samples s)) =
     (self_test_scale e (HMC58X3_X_SELF_TEST_GAUSS e) gain n_samples (fst (axis_totals e gain n_samples s)),
      self_test_scale e (HMC58X3_Y_SELF_TEST_GAUSS e) gain n_samples (fst (snd (axis_totals e gain n_samples s))),
      self_test_scale e (HMC58X3_Z_SELF_TEST_GAUSS e) gain n_samples (snd (snd (axis_totals e gain n_samples s))))"
    by simp
  ultimately show ?thesis
    by (simp add: Let_def scales_def axis_totals_sums self_test_scale_def)
qed

theorem calibrate_scale_factors_witness:
  "fst (calibrate (bench good_device) 1 2 fresh) \<and>
   length (pos_samples (bench good_device) 1 2 fresh) = unat (2 :: uint32) \<and>
   length (neg_samples (bench good_device) 1 2 fresh) = unat (2 :: uint32) \<and>
   axis_sum x_of (pos_samples (bench good_device) 1 2 fresh) -
     axis_sum x_of (neg_samples (bench good_device) 1 2 fresh) = 4000 \<and>
   x_scale (snd (calibrate (bench good_device) 1 2 fresh)) = 1090 * (116 / 100 * 2) / 2000 \<and>
   y_scale (snd (calibrate (bench good_device) 1 2 fresh)) = 1090 * (116 / 100 * 2) / 2000 \<and>
   z_scale (snd (calibrate (bench good_device) 1 2 fresh)) = 1090 * (108 / 100 * 2) / 2000"
proof -
  have tx: "axis_sum x_of (pos_samples (bench good_device) 1 2 fresh) -
     axis_sum x_of (neg_samples (bench good_device) 1 2 fresh) = 4000" by code_simp
  have ty: "axis_sum y_of (pos_samples (bench good_device) 1 2 fresh) -
     axis_sum y_of (neg_samples (bench good_device) 1 2 fresh) = 4000" by code_simp
  have tz: "axis_sum z_of (pos_samples (bench good_device) 1 2 fresh) -
     axis_sum z_of (neg_samples (bench good_device) 1 2 fresh) = 4000" by code_simp
  have q: "uint ((4000 :: uint32) div 2) = 2000" by simp
  have c: "counts_per_milligauss (bench good_device) (unat (1 :: byte)) = 1090"
    by (simp add: counts_per_milligauss_def bench_def)
  from calibrate_scale_factors [OF good_run] good_run tx
  show ?thesis
    unfolding Let_def tx ty tz q c by (simp add: bench_def)
qed

text \<open>
  C3. Whatever the arguments and the state, the three scale factors after
  \<^verbatim>\<open>calibrate(gain, n_samples)\<close> are the three values computed from the totals when
  the call returns true, and the three values from before the call when it returns
  false: all three or none.
\<close>

theorem calibrate_scales_all_or_none:
  "scales (snd (calibrate e gain n_samples s)) =
     (if fst (calibrate e gain n_samples s)
      then (case axis_totals e gain n_samples s of (tx, ty, tz) \<Rightarrow>
              (self_test_scale e (HMC58X3_X_SELF_TEST_GAUSS e) gain n_samples tx,
               self_test_scale e (HMC58X3_Y_SELF_TEST_GAUSS e) gain n_samples ty,
               self_test_scale e (HMC58X3_Z_SELF_TEST_GAUSS e) gain n_samples tz))
      else scales s)"
proof (cases "gain < 8 \<and> 0 < n_samples")
  case False
  then have "7 < gain \<or> n_samples = 0"
    by (auto simp: word_less_nat_alt unat_gt_0)
  from calibrate_bad [OF this, of e s] show ?thesis by (simp add: scales_def)
next
  case True
  then have v: "gain < 8" "0 < n_samples" by simp_all
  show ?thesis
  proof (cases "id_accepted e s")
    case False
    from calibrate_rejected [OF v False] show ?thesis by (simp add: scales_def)
  next
    case True
    show ?thesis
      by (simp add: calibrate_scales [OF v True] calibrate_result [OF v True] split_beta)
  qed
qed

subsection \<open>The self test: saturation\<close>

text \<open>
  C4. With valid parameters and an accepted identity, if some sample of the positive
  or of the negative phase is saturated, \<^verbatim>\<open>calibrate(gain, n_samples)\<close> returns false
  whatever the totals are. In a phase with a saturated sample the loop stops with it:
  the saturated sample is the last one taken and none before it is saturated; a phase
  without one takes all \<^verbatim>\<open>n_samples\<close> samples. The negative phase runs in either case:
  the bus traffic of the call is the identity read, the positive-bias write, the gain
  write, the discarded reading, one single-shot reading per positive sample, the
  negative-bias write, one single-shot reading per negative sample (at least one),
  and the write of 0x10 to configuration register A; when the two bias patterns differ
  from 0x10, that restoring write occurs exactly once among the events of the call.
  The log of the call lists the same samples, phase by phase, each saturated one
  followed by the saturation notice. (The reading discarded before the first loop is
  not a sample: the source does not test it.)
\<close>

theorem calibrate_saturation:
  assumes "gain < 8" and "0 < n_samples" and "id_accepted e s"
    and "\<exists>xyz\<in>set (pos_samples e gain n_samples s @ neg_samples e gain n_samples s). saturated xyz"
  shows
    "(let ps = pos_samples e gain n_samples s;
          ns = neg_samples e gain n_samples s;
          s' = snd (calibrate e gain n_samples s)
      in \<not> fst (calibrate e gain n_samples s) \<and>
         (if list_ex saturated ps
          then saturated (last ps) \<and> \<not> list_ex saturated (butlast ps) \<and> length ps \<le> unat n_samples
          else length ps = unat n_samples) \<and>
         (if list_ex saturated ns
          then saturated (last ns) \<and> \<not> list_ex saturated (butlast ns) \<and> length ns \<le> unat n_samples
          else length ns = unat n_samples) \<and>
         0 < length ns \<and>
         io s' = io s @
           [Reg_read (HMC58X3_R_IDA e) 3,
            Reg_write (HMC58X3_R_CONFA e) (pos_bias_value e),
            Reg_write (HMC58X3_R_CONFB e) (push_bit 5 gain)] @
           sample_ops e @ phase_ops e (length ps) @
           [Reg_write (HMC58X3_R_CONFA e) (neg_bias_value e)] @
           phase_ops e (length ns) @
           [Reg_write (HMC58X3_R_CONFA e) 0x10] \<and>
         (pos_bias_value e \<noteq> 0x10 \<and> neg_bias_value e \<noteq> 0x10 \<longrightarrow>
          count_list (drop (length (io s)) (io s')) (Reg_write (HMC58X3_R_CONFA e) 0x10) = 1) \<and>
         rosout s' = rosout s @ [Info_id 0x48 0x34 0x33] @
           phase_lines ps @ [totals_line (pos_totals e gain n_samples s)] @
           phase_lines ns @
           [totals_line (axis_totals e gain n_samples s),
            Info_limits (low_limit e gain n_samples) (high_limit e gain n_samples),
            Debug_print ''HMC58x3 Self test out of range.''])"
proof -
  let ?ps = "pos_samples e gain n_samples s" and ?ns = "neg_samples e gain n_samples s"
  note v = assms(1-3)
  from assms(4) have np: "\<not> self_test_passed e gain n_samples s"
    by (auto simp: self_test_passed_def list_ex_iff)
  then have r: "\<not> fst (calibrate e gain n_samples s)"
    by (simp add: calibrate_result [OF v])
  have lg: "rosout (snd (calibrate e gain n_samples s)) = rosout s @ [Info_id 0x48 0x34 0x33] @
           phase_lines ?ps @ [totals_line (pos_totals e gain n_samples s)] @
           phase_lines ?ns @
           [totals_line (axis_totals e gain n_samples s),
            Info_limits (low_limit e gain n_samples) (high_limit e gain n_samples),
            Debug_print ''HMC58x3 Self test out of range.'']"
    using np by (simp add: calibrate_rosout [OF v])
  have shape_p: "if list_ex saturated ?ps
      then saturated (last ?ps) \<and> \<not> list_ex saturated (butlast ?ps) \<and> length ?ps \<le> unat n_samples
      else length ?ps = unat n_samples"
    unfolding pos_samples_def by (rule phase_shape)
  have shape_n: "if list_ex saturated ?ns
      then saturated (last ?ns) \<and> \<not> list_ex saturated (butlast ?ns) \<and> length ?ns \<le> unat n_samples
      else length ?ns = unat n_samples"
    unfolding neg_samples_def by (rule phase_shape)
  from assms(2) have "0 < unat n_samples" by (simp add: unat_gt_0)
  then have ne: "0 < length ?ns"
    using phase_samples_nonempty [of "unat n_samples" e "neg_start e gain n_samples s"]
    by (simp add: neg_samples_def)
  have io': "io (snd (calibrate e gain n_samples s)) = io s @
           [Reg_read (HMC58X3_R_IDA e) 3,
            Reg_write (HMC58X3_R_CONFA e) (pos_bias_value e),
            Reg_write (HMC58X3_R_CONFB e) (push_bit 5 gain)] @
           sample_ops e @ phase_ops e (length ?ps) @
           [Reg_write (HMC58X3_R_CONFA e) (neg_bias_value e)] @
           phase_ops e (length ?ns) @
           [Reg_write (HMC58X3_R_CONFA e) 0x10]"
    by (simp add: calibrate_io [OF v] neg_start_def pos_start_def)
  have cnt: "pos_bias_value e \<noteq> 0x10 \<and> neg_bias_value e \<noteq> 0x10 \<longrightarrow>
      count_list (drop (length (io s)) (io (snd (calibrate e gain n_samples s))))
        (Reg_write (HMC58X3_R_CONFA e) 0x10) = 1"
    unfolding io' using gain_bits_not_restore [of gain]
    by (simp add: count_phase_ops sample_ops_def)
  from r shape_p shape_n ne io' cnt lg show ?thesis
    unfolding Let_def by (intro conjI)
qed

theorem calibrate_saturation_witness:
  "(1 :: byte) < 8 \<and> (0 :: uint32) < 3 \<and> id_accepted (bench masked_device) fresh \<and>
   pos_samples (bench masked_device) 1 3 fresh = [(1000, 1000, 1000), (1000, 1000, - 4096)] \<and>
   neg_samples (bench masked_device) 1 3 fresh = [(- 3000, - 3000, - 8000)] \<and>
   saturated (1000, 1000, - 4096) \<and> saturated (- 3000, - 3000, - 8000) \<and>
   pos_bias_value (bench masked_device) = 0x11 \<and> neg_bias_value (bench masked_device) = 0x12 \<and>
   axis_totals (bench masked_device) 1 3 fresh = (5000, 5000, 4904) \<and>
   within_limits (low_limit (bench masked_device) 1 3) (high_limit (bench masked_device) 1 3)
     (axis_totals (bench masked_device) 1 3 fresh) \<and>
   \<not> fst (calibrate (bench masked_device) 1 3 fresh) \<and>
   io (snd (calibrate (bench masked_device) 1 3 fresh)) =
     [Reg_read 10 3, Reg_write 0 0x11, Reg_write 1 0x20,
      Reg_write 2 1, Sleep_ms 100, Reg_read 3 6,
      Reg_write 2 1, Sleep_ms 100, Reg_read 3 6,
      Reg_write 2 1, Sleep_ms 100, Reg_read 3 6,
      Reg_write 0 0x12,
      Reg_write 2 1, Sleep_ms 100, Reg_read 3 6,
      Reg_write 0 0x10] \<and>
   count_list (drop (length (io fresh)) (io (snd (calibrate (bench masked_device) 1 3 fresh))))
     (Reg_write 0 0x10) = 1"
proof -
  have a: "(1 :: byte) < 8" and b: "(0 :: uint32) < 3" by simp_all
  have ps: "pos_samples (bench masked_device) 1 3 fresh = [(1000, 1000, 1000), (1000, 1000, - 4096)]"
    by code_simp
  have ns: "neg_samples (bench masked_device) 1 3 fresh = [(- 3000, - 3000, - 8000)]"
    by code_simp
  have s1: "saturated (1000, 1000, - 4096)" and s2: "saturated (- 3000, - 3000, - 8000)"
    by code_simp+
  have pb: "pos_bias_value (bench masked_device) = 0x11"
    and nb: "neg_bias_value (bench masked_device) = 0x12"
    by (simp_all add: pos_bias_value_def neg_bias_value_def bench_def)
  have tot: "axis_totals (bench masked_device) 1 3 fresh = (5000, 5000, 4904)"
    by code_simp
  have lim: "within_limits (low_limit (bench masked_device) 1 3) (high_limit (bench masked_device) 1 3)
     (axis_totals (bench masked_device) 1 3 fresh)"
    by code_simp
  have sat: "\<exists>xyz\<in>set (pos_samples (bench masked_device) 1 3 fresh @
      neg_samples (bench masked_device) 1 3 fresh). saturated xyz"
    unfolding ps ns using s1 by simp
  have regs: "HMC58X3_R_IDA (bench masked_device) = 10" "HMC58X3_R_CONFA (bench masked_device) = 0"
    "HMC58X3_R_CONFB (bench masked_device) = 1" "HMC58X3_R_MODE (bench masked_device) = 2"
    "HMC58X3_R_XM (bench masked_device) = 3"
    by (simp_all add: bench_def)
  have p1: "pos_bias_value (bench masked_device) \<noteq> 0x10" and p2: "neg_bias_value (bench masked_device) \<noteq> 0x10"
    unfolding pb nb by simp_all
  have io0: "io fresh = []" by (simp add: fresh_def)
  from calibrate_saturation [OF a b masked_accepted sat] p1 p2
  have "\<not> fst (calibrate (bench masked_device) 1 3 fresh)"
    and "io (snd (calibrate (bench masked_device) 1 3 fresh)) =
     [Reg_read 10 3, Reg_write 0 0x11, Reg_write 1 0x20,
      Reg_write 2 1, Sleep_ms 100, Reg_read 3 6,
      Reg_write 2 1, Sleep_ms 100, Reg_read 3 6,
      Reg_write 2 1, Sleep_ms 100, Reg_read 3 6,
      Reg_write 0 0x12,
      Reg_write 2 1, Sleep_ms 100, Reg_read 3 6,
      Reg_write 0 0x10]"
    and "count_list (drop (length (io fresh)) (io (snd (calibrate (bench masked_device) 1 3 fresh))))
     (Reg_write 0 0x10) = 1"
    unfolding Let_def ps ns pb nb regs io0
    by (simp_all add: phase_ops_def sample_ops_def regs eval_nat_numeral)
  with a b masked_accepted ps ns s1 s2 pb nb tot lim show ?thesis by (intro conjI)
qed

end
